theory Spec2Isabelle
  imports Main "HOL-Library.AList"
begin

section \<open>Parsed documents\<close>

text \<open>
  The value tree that the structured-data parser hands to the validator: null, booleans,
  integers, strings, sequences and mappings. A mapping is an association list read with
  \<open>map_of\<close>; its keys are strings, the only keys the validator ever looks up.
  Floating-point numbers and timestamps are left out of the tree.
\<close>

datatype yval =
    YNull
  | YBool bool
  | YInt int
  | YStr string
  | YList "yval list"
  | YMap "(string \<times> yval) list"

type_synonym dict = "(string \<times> yval) list"

text \<open>Python truthiness: \<open>if v:\<close>.\<close>

fun truthy :: "yval \<Rightarrow> bool" where
  "truthy YNull = False"
| "truthy (YBool b) = b"
| "truthy (YInt i) = (i \<noteq> 0)"
| "truthy (YStr s) = (s \<noteq> [])"
| "truthy (YList l) = (l \<noteq> [])"
| "truthy (YMap m) = (m \<noteq> [])"

text \<open>Lists and dicts cannot be hashed: using one as a set element or dict key raises TypeError.\<close>

fun hashable :: "yval \<Rightarrow> bool" where
  "hashable (YList l) = False"
| "hashable (YMap m) = False"
| "hashable v = True"

text \<open>
  Sets and dict keys compare with \<open>==\<close>, under which \<open>True == 1\<close> and \<open>False == 0\<close>.
  A set of Python values is modelled as the set of the \<open>hkey\<close>s of its elements.
\<close>

fun hkey :: "yval \<Rightarrow> yval" where
  "hkey (YBool b) = YInt (if b then 1 else 0)"
| "hkey v = v"

fun is_dict :: "yval \<Rightarrow> bool" where
  "is_dict (YMap m) = True"
| "is_dict v = False"

fun is_list :: "yval \<Rightarrow> bool" where
  "is_list (YList l) = True"
| "is_list v = False"

text \<open>\<open>k in data\<close>, \<open>data.get(k)\<close> and \<open>data.get(k, default)\<close> on a dict.\<close>

definition has_key :: "dict \<Rightarrow> string \<Rightarrow> bool" where
  "has_key data k = (map_of data k \<noteq> None)"

definition dget_default :: "dict \<Rightarrow> string \<Rightarrow> yval \<Rightarrow> yval" where
  "dget_default data k d = (case map_of data k of None \<Rightarrow> d | Some v \<Rightarrow> v)"

definition dget :: "dict \<Rightarrow> string \<Rightarrow> yval" where
  "dget data k = dget_default data k YNull"

text \<open>\<open>v in [..strings..]\<close>: list membership by \<open>==\<close>; only an equal string is a member.\<close>

fun in_strs :: "yval \<Rightarrow> string list \<Rightarrow> bool" where
  "in_strs (YStr s) l = (s \<in> set l)"
| "in_strs v l = False"

text \<open>The keys of a dict in insertion order.\<close>

fun dict_keys :: "dict \<Rightarrow> string list" where
  "dict_keys [] = []"
| "dict_keys (kv # m) = fst kv # removeAll (fst kv) (dict_keys m)"

text \<open>
  \<open>for x in v\<close>: a list yields its elements, a string its characters, a dict its keys;
  anything else raises TypeError (\<open>None\<close> here).
\<close>

fun py_iter :: "yval \<Rightarrow> yval list option" where
  "py_iter (YList l) = Some l"
| "py_iter (YStr s) = Some (map (\<lambda>c. YStr [c]) s)"
| "py_iter (YMap m) = Some (map YStr (dict_keys m))"
| "py_iter v = None"

text \<open>\<open>'.' in v\<close>; raises TypeError (\<open>None\<close>) on a value that is not a container.\<close>

fun contains_dot :: "yval \<Rightarrow> bool option" where
  "contains_dot (YStr s) = Some (CHR ''.'' \<in> set s)"
| "contains_dot (YList l) = Some (YStr ''.'' \<in> set l)"
| "contains_dot (YMap m) = Some (has_key m ''.'')"
| "contains_dot v = None"

text \<open>\<open>s.split('.', 1)\<close> on a string that contains a dot.\<close>

definition split_dot :: "string \<Rightarrow> string \<times> string" where
  "split_dot s = (takeWhile (\<lambda>c. c \<noteq> CHR ''.'') s, tl (dropWhile (\<lambda>c. c \<noteq> CHR ''.'') s))"

section \<open>Diagnostics and validator state\<close>

text \<open>
  A \<open>ValidationError\<close> with its file, category and severity. The message text and the line
  number (never set by the validator) are not modelled.
\<close>

record ValidationError =
  file_path :: string
  error_type :: string
  severity :: string

datatype exn = TypeError | AttributeError | KeyError

record PlayScriptValidator =
  errors :: "ValidationError list"
  warnings :: "ValidationError list"
  schema_objects :: "yval set"
  schema_fields :: "yval \<Rightarrow> yval set option"
  action_names :: "yval set"
  integration_names :: "yval set"
  all_files :: "(string \<times> dict) list"

type_synonym vstate = PlayScriptValidator

text \<open>A call either returns with the new state or raises, leaving the state it reached.\<close>

type_synonym result = "(exn \<times> vstate) + vstate"

definition init :: vstate where
  "init = \<lparr>errors = [], warnings = [], schema_objects = {}, schema_fields = (\<lambda>k. None),
     action_names = {}, integration_names = {}, all_files = []\<rparr>"

definition add_error :: "string \<Rightarrow> string \<Rightarrow> vstate \<Rightarrow> vstate" where
  "add_error p t s =
     s\<lparr>errors := errors s @ [\<lparr>file_path = p, error_type = t, severity = ''error''\<rparr>]\<rparr>"

definition add_warning :: "string \<Rightarrow> string \<Rightarrow> vstate \<Rightarrow> vstate" where
  "add_warning p t s =
     s\<lparr>warnings := warnings s @ [\<lparr>file_path = p, error_type = t, severity = ''warning''\<rparr>]\<rparr>"

section \<open>Phase 1: per-file syntax validation\<close>

fun check_required_fields :: "string \<Rightarrow> dict \<Rightarrow> string list \<Rightarrow> vstate \<Rightarrow> vstate" where
  "check_required_fields p data [] s = s"
| "check_required_fields p data (field # required_fields) s =
     check_required_fields p data required_fields
       (if \<not> has_key data field then add_error p ''missing_required_field'' s else s)"

definition valid_implementations :: "string list" where
  "valid_implementations = [''create_record'', ''integration_call'', ''python'', ''api_call'']"

definition validate_action :: "string \<Rightarrow> dict \<Rightarrow> vstate \<Rightarrow> result" where
  "validate_action p data s0 =
     (let s1 = check_required_fields p data [''name'', ''description'', ''implementation''] s0;
          name = dget data ''name''
      in if truthy name \<and> \<not> hashable name then Inl (TypeError, s1)
         else
           let s2 = (if truthy name
                     then s1\<lparr>action_names := insert (hkey name) (action_names s1)\<rparr> else s1);
               implementation = dget data ''implementation'';
               s3 = (if truthy implementation \<and> \<not> in_strs implementation valid_implementations
                     then add_error p ''invalid_implementation'' s2 else s2);
               s4 = (if has_key data ''input_schema'' \<and> \<not> is_dict (dget data ''input_schema'')
                     then add_error p ''invalid_schema'' s3 else s3);
               s5 = (if has_key data ''output_schema'' \<and> \<not> is_dict (dget data ''output_schema'')
                     then add_error p ''invalid_schema'' s4 else s4);
               tags = dget_default data ''tags'' (YList [])
           in Inr (if truthy tags \<and> \<not> is_list tags
                   then add_error p ''invalid_tags'' s5 else s5))"

definition valid_field_types :: "string list" where
  "valid_field_types = [''string'', ''email'', ''datetime'', ''integer'', ''decimal'',
     ''boolean'', ''textarea'', ''picklist.excl'', ''picklist.multi'']"

text \<open>\<open>v.startswith('picklist')\<close>; only a string has the method (\<open>None\<close>: AttributeError).\<close>

fun startswith_picklist :: "yval \<Rightarrow> bool option" where
  "startswith_picklist (YStr s) = Some (take 8 s = ''picklist'')"
| "startswith_picklist v = None"

text \<open>
  The body of the loop over a schema's \<open>fields\<close>; \<open>field_names\<close> is the loop's local set
  of the names seen so far.
\<close>

fun schema_fields_loop ::
  "string \<Rightarrow> yval \<Rightarrow> yval list \<Rightarrow> yval set \<Rightarrow> vstate \<Rightarrow> result" where
  "schema_fields_loop p object_name [] field_names s = Inr s"
| "schema_fields_loop p object_name (field # rest) field_names s =
     (case field of
        YMap f \<Rightarrow>
          (let field_name = dget f ''name'' in
           if \<not> truthy field_name
           then schema_fields_loop p object_name rest field_names
                  (add_error p ''missing_field_name'' s)
           else if \<not> hashable field_name then Inl (TypeError, s)
           else
             let s1 = (if hkey field_name \<in> field_names
                       then add_error p ''duplicate_field'' s else s);
                 field_names' = insert (hkey field_name) field_names
             in case (if truthy object_name
                      then (case schema_fields s1 (hkey object_name) of
                              None \<Rightarrow> Inl (KeyError, s1)
                            | Some fs \<Rightarrow>
                                Inr (s1\<lparr>schema_fields := (schema_fields s1)
                                       (hkey object_name \<mapsto> insert (hkey field_name) fs)\<rparr>))
                      else Inr s1) of
                  Inl e \<Rightarrow> Inl e
                | Inr s2 \<Rightarrow>
                    let field_type = dget f ''type'';
                        s3 = (if truthy field_type \<and> \<not> in_strs field_type valid_field_types
                              then add_warning p ''unknown_field_type'' s2 else s2)
                    in if \<not> truthy field_type
                       then schema_fields_loop p object_name rest field_names' s3
                       else (case startswith_picklist field_type of
                               None \<Rightarrow> Inl (AttributeError, s3)
                             | Some pl \<Rightarrow>
                                 schema_fields_loop p object_name rest field_names'
                                   (if pl \<and> \<not> has_key f ''values''
                                    then add_error p ''missing_picklist_values'' s3 else s3)))
      | _ \<Rightarrow> schema_fields_loop p object_name rest field_names
               (add_error p ''invalid_field'' s))"

definition validate_schema :: "string \<Rightarrow> dict \<Rightarrow> vstate \<Rightarrow> result" where
  "validate_schema p data s0 =
     (let s1 = check_required_fields p data [''object'', ''description'', ''fields''] s0;
          object_name = dget data ''object''
      in if truthy object_name \<and> \<not> hashable object_name then Inl (TypeError, s1)
         else
           let s2 = (if truthy object_name
                     then s1\<lparr>schema_objects := insert (hkey object_name) (schema_objects s1),
                             schema_fields := (schema_fields s1)(hkey object_name \<mapsto> {})\<rparr>
                     else s1)
           in case dget_default data ''fields'' (YList []) of
                YList field_list \<Rightarrow> schema_fields_loop p object_name field_list {} s2
              | _ \<Rightarrow> Inr (add_error p ''invalid_fields'' s2))"

definition valid_component_types :: "string list" where
  "valid_component_types = [''field_section'', ''related_list'', ''custom_component'']"

fun layout_components_loop :: "string \<Rightarrow> yval list \<Rightarrow> vstate \<Rightarrow> vstate" where
  "layout_components_loop p [] s = s"
| "layout_components_loop p (component # components) s =
     layout_components_loop p components
       (case component of
          YMap c \<Rightarrow>
            (let comp_type = dget c ''type'' in
             if truthy comp_type \<and> \<not> in_strs comp_type valid_component_types
             then add_error p ''invalid_component_type'' s else s)
        | _ \<Rightarrow> add_error p ''invalid_component'' s)"

definition validate_layout :: "string \<Rightarrow> dict \<Rightarrow> vstate \<Rightarrow> result" where
  "validate_layout p data s0 =
     (let s1 = check_required_fields p data [''name'', ''components''] s0
      in case dget_default data ''components'' (YList []) of
           YList components \<Rightarrow> Inr (layout_components_loop p components s1)
         | _ \<Rightarrow> Inr (add_error p ''invalid_components'' s1))"

definition valid_trigger_types :: "string list" where
  "valid_trigger_types = [''database_event'', ''schedule'', ''webhook'', ''manual'']"

definition validate_automation :: "string \<Rightarrow> dict \<Rightarrow> vstate \<Rightarrow> result" where
  "validate_automation p data s0 =
     (let s1 = check_required_fields p data
                 [''name'', ''description'', ''trigger'', ''action''] s0;
          s2 = (case dget_default data ''trigger'' (YMap []) of
                  YMap trigger \<Rightarrow>
                    (let trigger_type = dget trigger ''type'' in
                     if truthy trigger_type \<and> \<not> in_strs trigger_type valid_trigger_types
                     then add_error p ''invalid_trigger_type'' s1 else s1)
                | _ \<Rightarrow> s1)
      in case dget_default data ''action'' (YMap []) of
           YMap action \<Rightarrow>
             Inr (if \<not> has_key action ''ref''
                  then add_error p ''missing_action_ref'' s2 else s2)
         | _ \<Rightarrow> Inr s2)"

definition validate_integration :: "string \<Rightarrow> dict \<Rightarrow> vstate \<Rightarrow> result" where
  "validate_integration p data s0 =
     (let s1 = check_required_fields p data [''name'', ''service'', ''description''] s0;
          name = dget data ''name''
      in if truthy name \<and> \<not> hashable name then Inl (TypeError, s1)
         else Inr (if truthy name
                   then s1\<lparr>integration_names := insert (hkey name) (integration_names s1)\<rparr>
                   else s1))"

definition validate_form :: "string \<Rightarrow> dict \<Rightarrow> vstate \<Rightarrow> result" where
  "validate_form p data s0 =
     (let s1 = check_required_fields p data
                 [''name'', ''title'', ''target_object'', ''fields''] s0
      in Inr (if \<not> is_list (dget_default data ''fields'' (YList []))
              then add_error p ''invalid_fields'' s1 else s1))"

text \<open>
  What reading and parsing one file gives: the read fails, the parser rejects the text,
  or the parser returns a value tree.
\<close>

datatype source = ReadError | ParseError | Parsed yval

text \<open>The dispatch on the document's \<open>type\<close>, inside the \<open>try\<close> of \<open>_validate_file\<close>.\<close>

definition validate_typed :: "string \<Rightarrow> dict \<Rightarrow> vstate \<Rightarrow> result" where
  "validate_typed p data s =
     (let file_type = dget data ''type'' in
      if \<not> truthy file_type then Inr (add_error p ''missing_type'' s)
      else if file_type = YStr ''action'' then validate_action p data s
      else if file_type = YStr ''schema'' then validate_schema p data s
      else if file_type = YStr ''layout'' then validate_layout p data s
      else if file_type = YStr ''automation'' then validate_automation p data s
      else if file_type = YStr ''integration'' then validate_integration p data s
      else if file_type = YStr ''form'' then validate_form p data s
      else Inr (add_warning p ''unknown_type'' s))"

definition validate_file :: "string \<Rightarrow> source \<Rightarrow> vstate \<Rightarrow> vstate" where
  "validate_file p src s =
     (case src of
        ReadError \<Rightarrow> add_error p ''file_error'' s
      | ParseError \<Rightarrow> add_error p ''yaml_syntax'' s
      | Parsed (YMap data) \<Rightarrow>
          (case validate_typed p data (s\<lparr>all_files := AList.update p data (all_files s)\<rparr>) of
             Inl (e, s') \<Rightarrow> add_error p ''file_error'' s'
           | Inr s' \<Rightarrow> s')
      | Parsed _ \<Rightarrow> add_error p ''invalid_format'' s)"

fun validate_files :: "(string \<times> source) list \<Rightarrow> vstate \<Rightarrow> vstate" where
  "validate_files [] s = s"
| "validate_files (f # fs) s = validate_files fs (validate_file (fst f) (snd f) s)"

text \<open>
  What the target path resolves to on the file system: no target (every \<open>.ps\<close> file under
  the project root), one \<open>.ps\<close> file, a directory (every \<open>.ps\<close> file under it), or anything
  else (a missing path, or a file without the \<open>.ps\<close> suffix).
\<close>

datatype target =
    WholeProject "(string \<times> source) list"
  | SingleFile string source
  | Directory "(string \<times> source) list"
  | Unmatched string

fun validate_syntax :: "target \<Rightarrow> vstate \<Rightarrow> vstate" where
  "validate_syntax (WholeProject fs) s = validate_files fs s"
| "validate_syntax (SingleFile p src) s = validate_file p src s"
| "validate_syntax (Directory fs) s = validate_files fs s"
| "validate_syntax (Unmatched p) s = add_error p ''file_not_found'' s"

section \<open>Phase 2: cross-file references\<close>

definition validate_automation_references :: "string \<Rightarrow> dict \<Rightarrow> vstate \<Rightarrow> result" where
  "validate_automation_references p data s =
     (case dget_default data ''action'' (YMap []) of
        YMap action \<Rightarrow>
          (let ref = dget action ''ref'' in
           if \<not> truthy ref then Inr s
           else if \<not> hashable ref then Inl (TypeError, s)
           else Inr (if hkey ref \<notin> action_names s
                     then add_error p ''missing_action_reference'' s else s))
      | _ \<Rightarrow> Inr s)"

text \<open>
  The check of an already split qualified reference \<open>obj.field\<close>, as both
  \<open>_validate_field_reference\<close> and \<open>_validate_form_references\<close> make it.
\<close>

definition check_qualified :: "string \<Rightarrow> string \<times> string \<Rightarrow> vstate \<Rightarrow> vstate" where
  "check_qualified p qual s =
     (case schema_fields s (YStr (fst qual)) of
        Some fset \<Rightarrow>
          (if YStr (snd qual) \<notin> fset then add_error p ''missing_field_reference'' s else s)
      | None \<Rightarrow> s)"

definition validate_field_reference :: "string \<Rightarrow> yval \<Rightarrow> yval \<Rightarrow> vstate \<Rightarrow> result" where
  "validate_field_reference p object_name field_name s =
     (case contains_dot field_name of
        None \<Rightarrow> Inl (TypeError, s)
      | Some True \<Rightarrow>
          (case field_name of
             YStr fn \<Rightarrow> Inr (check_qualified p (split_dot fn) s)
           | _ \<Rightarrow> Inl (AttributeError, s))
      | Some False \<Rightarrow>
          (if \<not> hashable object_name then Inl (TypeError, s)
           else case schema_fields s (hkey object_name) of
                  None \<Rightarrow> Inr s
                | Some fset \<Rightarrow>
                    (if \<not> hashable field_name then Inl (TypeError, s)
                     else Inr (if hkey field_name \<notin> fset
                               then add_error p ''missing_field_reference'' s else s))))"

fun layout_fields_loop :: "string \<Rightarrow> yval \<Rightarrow> yval list \<Rightarrow> vstate \<Rightarrow> result" where
  "layout_fields_loop p layout_name [] s = Inr s"
| "layout_fields_loop p layout_name (field # rest) s =
     (case (case field of
              YStr fn \<Rightarrow> validate_field_reference p layout_name field s
            | YMap f \<Rightarrow>
                (if has_key f ''name''
                 then validate_field_reference p layout_name (dget f ''name'') s
                 else Inr s)
            | _ \<Rightarrow> Inr s) of
        Inl e \<Rightarrow> Inl e
      | Inr s' \<Rightarrow> layout_fields_loop p layout_name rest s')"

fun layout_refs_loop :: "string \<Rightarrow> yval \<Rightarrow> yval list \<Rightarrow> vstate \<Rightarrow> result" where
  "layout_refs_loop p layout_name [] s = Inr s"
| "layout_refs_loop p layout_name (component # components) s =
     (case (case component of
              YMap c \<Rightarrow>
                (case py_iter (dget_default c ''fields'' (YList [])) of
                   None \<Rightarrow> Inl (TypeError, s)
                 | Some field_list \<Rightarrow> layout_fields_loop p layout_name field_list s)
            | _ \<Rightarrow> Inr s) of
        Inl e \<Rightarrow> Inl e
      | Inr s' \<Rightarrow> layout_refs_loop p layout_name components s')"

definition validate_layout_references :: "string \<Rightarrow> dict \<Rightarrow> vstate \<Rightarrow> result" where
  "validate_layout_references p data s =
     (let layout_name = dget data ''name'' in
      if truthy layout_name \<and> \<not> hashable layout_name then Inl (TypeError, s)
      else
        let s1 = (if truthy layout_name \<and> hkey layout_name \<notin> schema_objects s
                  then add_warning p ''missing_schema_reference'' s else s)
        in case py_iter (dget_default data ''components'' (YList [])) of
             None \<Rightarrow> Inl (TypeError, s1)
           | Some components \<Rightarrow> layout_refs_loop p layout_name components s1)"

text \<open>One iteration of the loop over a form's \<open>fields\<close>.\<close>

definition form_field_step :: "string \<Rightarrow> yval \<Rightarrow> vstate \<Rightarrow> result" where
  "form_field_step p field s =
     (case field of
        YMap f \<Rightarrow>
          (if has_key f ''maps_to''
           then (let maps_to = dget f ''maps_to'' in
                 case contains_dot maps_to of
                   None \<Rightarrow> Inl (TypeError, s)
                 | Some True \<Rightarrow>
                     (case maps_to of
                        YStr m \<Rightarrow> Inr (check_qualified p (split_dot m) s)
                      | _ \<Rightarrow> Inl (AttributeError, s))
                 | Some False \<Rightarrow> Inr s)
           else Inr s)
      | _ \<Rightarrow> Inr s)"

fun form_fields_loop :: "string \<Rightarrow> yval list \<Rightarrow> vstate \<Rightarrow> result" where
  "form_fields_loop p [] s = Inr s"
| "form_fields_loop p (field # rest) s =
     (case form_field_step p field s of
        Inl e \<Rightarrow> Inl e
      | Inr s' \<Rightarrow> form_fields_loop p rest s')"

definition validate_form_references :: "string \<Rightarrow> dict \<Rightarrow> vstate \<Rightarrow> result" where
  "validate_form_references p data s =
     (let target_object = dget data ''target_object'' in
      if truthy target_object \<and> \<not> hashable target_object then Inl (TypeError, s)
      else
        let s1 = (if truthy target_object \<and> hkey target_object \<notin> schema_objects s
                  then add_error p ''missing_schema_reference'' s else s)
        in case py_iter (dget_default data ''fields'' (YList [])) of
             None \<Rightarrow> Inl (TypeError, s1)
           | Some field_list \<Rightarrow> form_fields_loop p field_list s1)"

definition validate_integration_references :: "string \<Rightarrow> dict \<Rightarrow> vstate \<Rightarrow> result" where
  "validate_integration_references p data s =
     (case dget_default data ''defaults'' (YMap []) of
        YMap defaults \<Rightarrow>
          (let integration = dget defaults ''integration'' in
           if \<not> truthy integration then Inr s
           else if \<not> hashable integration then Inl (TypeError, s)
           else Inr (if hkey integration \<notin> integration_names s
                     then add_error p ''missing_integration_reference'' s else s))
      | _ \<Rightarrow> Inl (AttributeError, s))"

text \<open>The dispatch of one document in \<open>_validate_cross_file_references\<close>.\<close>

definition validate_references :: "string \<Rightarrow> dict \<Rightarrow> vstate \<Rightarrow> result" where
  "validate_references p data s =
     (let file_type = dget data ''type'' in
      if file_type = YStr ''automation'' then validate_automation_references p data s
      else if file_type = YStr ''layout'' then validate_layout_references p data s
      else if file_type = YStr ''form'' then validate_form_references p data s
      else if file_type = YStr ''action''
              \<and> dget data ''implementation'' = YStr ''integration_call''
           then validate_integration_references p data s
      else Inr s)"

fun cross_file_loop :: "(string \<times> dict) list \<Rightarrow> vstate \<Rightarrow> result" where
  "cross_file_loop [] s = Inr s"
| "cross_file_loop (f # fs) s =
     (case validate_references (fst f) (snd f) s of
        Inl e \<Rightarrow> Inl e
      | Inr s' \<Rightarrow> cross_file_loop fs s')"

definition validate_cross_file_references :: "vstate \<Rightarrow> result" where
  "validate_cross_file_references s = cross_file_loop (all_files s) s"

section \<open>The orchestrator\<close>

text \<open>
  \<open>validate_all\<close> returns the verdict with the final state, or raises what the cross-file
  stage raised. Printing is not modelled.
\<close>

definition validate_all ::
  "target \<Rightarrow> bool \<Rightarrow> bool \<Rightarrow> vstate \<Rightarrow> (exn \<times> vstate) + (bool \<times> vstate)" where
  "validate_all target_path syntax_only cross_file_only s0 =
     (let s1 = (if \<not> cross_file_only then validate_syntax target_path s0 else s0)
      in case (if \<not> syntax_only then validate_cross_file_references s1 else Inr s1) of
           Inl e \<Rightarrow> Inl e
         | Inr s2 \<Rightarrow> Inr (errors s2 = [], s2))"

text \<open>
  The exit status of \<open>main\<close>: \<open>sys.exit(0 if success else 1)\<close>, and 1 when an uncaught
  exception ends the process.
\<close>

definition main :: "target \<Rightarrow> bool \<Rightarrow> bool \<Rightarrow> nat" where
  "main target_path syntax_only cross_file_only =
     (case validate_all target_path syntax_only cross_file_only init of
        Inl e \<Rightarrow> 1
      | Inr (success, s) \<Rightarrow> (if success then 0 else 1))"

section \<open>Observations on states and runs\<close>

text \<open>The state a call leaves behind, whether it returned or raised.\<close>

definition state_of :: "result \<Rightarrow> vstate" where
  "state_of r = (case r of Inl es \<Rightarrow> snd es | Inr s \<Rightarrow> s)"

text \<open>How many errors of category \<open>t\<close> are recorded against file \<open>p\<close>.\<close>

definition count_errors :: "string \<Rightarrow> string \<Rightarrow> vstate \<Rightarrow> nat" where
  "count_errors t p s = length (filter (\<lambda>e. error_type e = t \<and> file_path e = p) (errors s))"

text \<open>
  \<open>s'\<close> has the errors of \<open>s\<close> followed by errors against \<open>p\<close> with categories in \<open>T\<close>;
  likewise for warnings.
\<close>

definition extends_errors :: "string \<Rightarrow> string set \<Rightarrow> vstate \<Rightarrow> vstate \<Rightarrow> bool" where
  "extends_errors p T s s' =
     (\<exists>es. errors s' = errors s @ es \<and> (\<forall>e \<in> set es. file_path e = p \<and> error_type e \<in> T))"

definition extends_warnings :: "string \<Rightarrow> vstate \<Rightarrow> vstate \<Rightarrow> bool" where
  "extends_warnings p s s' =
     (\<exists>ws. warnings s' = warnings s @ ws \<and> (\<forall>e \<in> set ws. file_path e = p))"

text \<open>The errors recorded when \<open>validate_all\<close> ended, by returning or by raising.\<close>

definition run_errors :: "(exn \<times> vstate) + (bool \<times> vstate) \<Rightarrow> ValidationError list" where
  "run_errors r = (case r of Inl es \<Rightarrow> errors (snd es) | Inr bs \<Rightarrow> errors (snd bs))"

section \<open>Example projects\<close>

text \<open>An automation that refers to an action no document declares.\<close>

definition ghost_project :: "(string \<times> source) list" where
  "ghost_project =
     [(''notify.ps'', Parsed (YMap
        [(''type'', YStr ''automation''), (''name'', YStr ''notify''),
         (''description'', YStr ''d''), (''trigger'', YMap [(''type'', YStr ''manual'')]),
         (''action'', YMap [(''ref'', YStr ''ghost.action'')])]))]"

text \<open>An integration-backed action whose \<open>defaults\<close> key is left empty.\<close>

definition crash_project :: "(string \<times> source) list" where
  "crash_project =
     [(''sync.ps'', Parsed (YMap
        [(''type'', YStr ''action''), (''name'', YStr ''sync''),
         (''description'', YStr ''d''), (''implementation'', YStr ''integration_call''),
         (''defaults'', YNull)]))]"

definition typed_error_types :: "string set" where
  "typed_error_types = {''missing_required_field'', ''invalid_implementation'', ''invalid_schema'',
     ''invalid_tags'', ''invalid_fields'', ''invalid_field'', ''missing_field_name'',
     ''duplicate_field'', ''missing_picklist_values'', ''invalid_components'',
     ''invalid_component'', ''invalid_component_type'', ''invalid_trigger_type'',
     ''missing_action_ref''}"

definition phase1_error_types :: "string set" where
  "phase1_error_types = typed_error_types \<union>
     {''missing_type'', ''file_error'', ''yaml_syntax'', ''invalid_format'', ''file_not_found''}"

text \<open>The document declares an action whose name equals \<open>r\<close>.\<close>

fun declares_action :: "yval \<Rightarrow> source \<Rightarrow> bool" where
  "declares_action r (Parsed (YMap d)) =
     (dget d ''type'' = YStr ''action'' \<and> hkey (dget d ''name'') = hkey r)"
| "declares_action r src = False"

definition phase2_error_types :: "string set" where
  "phase2_error_types = {''missing_action_reference'', ''missing_schema_reference'',
     ''missing_field_reference'', ''missing_integration_reference''}"

definition refs_frame :: "string \<Rightarrow> vstate \<Rightarrow> vstate \<Rightarrow> bool" where
  "refs_frame p s s' =
     (extends_errors p phase2_error_types s s' \<and> extends_warnings p s s'
      \<and> schema_objects s' = schema_objects s \<and> schema_fields s' = schema_fields s
      \<and> action_names s' = action_names s \<and> integration_names s' = integration_names s
      \<and> all_files s' = all_files s)"

fun files_of :: "target \<Rightarrow> (string \<times> source) list" where
  "files_of (WholeProject fs) = fs"
| "files_of (SingleFile p src) = [(p, src)]"
| "files_of (Directory fs) = fs"
| "files_of (Unmatched p) = []"

definition run_state :: "(exn \<times> vstate) + (bool \<times> vstate) \<Rightarrow> vstate" where
  "run_state r = (case r of Inl es \<Rightarrow> snd es | Inr bs \<Rightarrow> snd bs)"

definition run_count :: "string \<Rightarrow> string \<Rightarrow> (exn \<times> vstate) + (bool \<times> vstate) \<Rightarrow> nat" where
  "run_count t p r = count_errors t p (run_state r)"

fun loaded :: "(string \<times> source) list \<Rightarrow> (string \<times> dict) list" where
  "loaded [] = []"
| "loaded (f # fs) =
     (case snd f of Parsed (YMap data) \<Rightarrow> [(fst f, data)] | _ \<Rightarrow> []) @ loaded fs"

definition contact_table :: vstate where
  "contact_table = init\<lparr>schema_objects := {YStr ''contact''},
     schema_fields := (\<lambda>k. None)(YStr ''contact'' \<mapsto> {YStr ''email''})\<rparr>"

(*DEFS-END*)

section \<open>Basic facts\<close>

lemma add_error_sel [simp]:
  "errors (add_error p t s) = errors s @ [\<lparr>file_path = p, error_type = t, severity = ''error''\<rparr>]"
  "warnings (add_error p t s) = warnings s"
  "schema_objects (add_error p t s) = schema_objects s"
  "schema_fields (add_error p t s) = schema_fields s"
  "action_names (add_error p t s) = action_names s"
  "integration_names (add_error p t s) = integration_names s"
  "all_files (add_error p t s) = all_files s"
  by (simp_all add: add_error_def)

lemma add_warning_sel [simp]:
  "errors (add_warning p t s) = errors s"
  "warnings (add_warning p t s) = warnings s @ [\<lparr>file_path = p, error_type = t, severity = ''warning''\<rparr>]"
  "schema_objects (add_warning p t s) = schema_objects s"
  "schema_fields (add_warning p t s) = schema_fields s"
  "action_names (add_warning p t s) = action_names s"
  "integration_names (add_warning p t s) = integration_names s"
  "all_files (add_warning p t s) = all_files s"
  by (simp_all add: add_warning_def)

lemma state_of_simps [simp]: "state_of (Inr s) = s" "state_of (Inl (e, s)) = s"
  by (simp_all add: state_of_def)

lemma crf_sel [simp]:
  "warnings (check_required_fields p data fs s) = warnings s"
  "schema_objects (check_required_fields p data fs s) = schema_objects s"
  "schema_fields (check_required_fields p data fs s) = schema_fields s"
  "action_names (check_required_fields p data fs s) = action_names s"
  "integration_names (check_required_fields p data fs s) = integration_names s"
  "all_files (check_required_fields p data fs s) = all_files s"
  by (induction fs arbitrary: s; simp)+

lemma crf_errors:
  "errors (check_required_fields p data fs s) =
     errors s @ map (\<lambda>f. \<lparr>file_path = p, error_type = ''missing_required_field'', severity = ''error''\<rparr>)
                  (filter (\<lambda>f. \<not> has_key data f) fs)"
  by (induction fs arbitrary: s) auto

lemma ext_refl [simp]: "extends_errors p T s s"
  by (simp add: extends_errors_def)

lemma ext_trans: "extends_errors p T s s' \<Longrightarrow> extends_errors p T s' s'' \<Longrightarrow> extends_errors p T s s''"
  by (auto simp: extends_errors_def)

lemma ext_add_error: "t \<in> T \<Longrightarrow> extends_errors p T s s' \<Longrightarrow> extends_errors p T s (add_error p t s')"
  by (auto simp: extends_errors_def)

lemma ext_same: "errors s'' = errors s' \<Longrightarrow> extends_errors p T s s' \<Longrightarrow> extends_errors p T s s''"
  by (auto simp: extends_errors_def)

lemma ext_crf:
  "''missing_required_field'' \<in> T \<Longrightarrow> extends_errors p T s s' \<Longrightarrow> extends_errors p T s (check_required_fields p data fs s')"
  by (auto simp: extends_errors_def crf_errors)

lemma ext_mono: "extends_errors p T s s' \<Longrightarrow> T \<subseteq> T' \<Longrightarrow> extends_errors p T' s s'"
  by (auto simp: extends_errors_def)

lemma extw_refl [simp]: "extends_warnings p s s"
  by (simp add: extends_warnings_def)

lemma extw_trans: "extends_warnings p s s' \<Longrightarrow> extends_warnings p s' s'' \<Longrightarrow> extends_warnings p s s''"
  by (auto simp: extends_warnings_def)

lemma extw_add_warning: "extends_warnings p s s' \<Longrightarrow> extends_warnings p s (add_warning p t s')"
  by (auto simp: extends_warnings_def)

lemma extw_same: "warnings s'' = warnings s' \<Longrightarrow> extends_warnings p s s' \<Longrightarrow> extends_warnings p s s''"
  by (auto simp: extends_warnings_def)

declare check_required_fields.simps [simp del]

lemma count_add_error [simp]:
  "count_errors t q (add_error p t' s) = count_errors t q s + (if t' = t \<and> p = q then 1 else 0)"
  by (simp add: count_errors_def)

lemma count_same: "errors s' = errors s \<Longrightarrow> count_errors t q s' = count_errors t q s"
  by (simp add: count_errors_def)

lemma count_ext_type: "extends_errors p T s s' \<Longrightarrow> t \<notin> T \<Longrightarrow> count_errors t q s' = count_errors t q s"
  by (auto simp: extends_errors_def count_errors_def filter_empty_conv)

lemma count_ext_path: "extends_errors p T s s' \<Longrightarrow> q \<noteq> p \<Longrightarrow> count_errors t q s' = count_errors t q s"
  by (auto simp: extends_errors_def count_errors_def filter_empty_conv)

lemma ext_upd [simp]:
  "extends_errors p T s (s'\<lparr>action_names := A\<rparr>) = extends_errors p T s s'"
  "extends_errors p T s (s'\<lparr>integration_names := A\<rparr>) = extends_errors p T s s'"
  "extends_errors p T s (s'\<lparr>schema_objects := A\<rparr>) = extends_errors p T s s'"
  "extends_errors p T s (s'\<lparr>schema_fields := F\<rparr>) = extends_errors p T s s'"
  "extends_errors p T s (s'\<lparr>all_files := L\<rparr>) = extends_errors p T s s'"
  "extends_errors p T s (add_warning p' t s') = extends_errors p T s s'"
  by (simp_all add: extends_errors_def)

lemma extw_upd [simp]:
  "extends_warnings p s (s'\<lparr>action_names := A\<rparr>) = extends_warnings p s s'"
  "extends_warnings p s (s'\<lparr>integration_names := A\<rparr>) = extends_warnings p s s'"
  "extends_warnings p s (s'\<lparr>schema_objects := A\<rparr>) = extends_warnings p s s'"
  "extends_warnings p s (s'\<lparr>schema_fields := F\<rparr>) = extends_warnings p s s'"
  "extends_warnings p s (s'\<lparr>all_files := L\<rparr>) = extends_warnings p s s'"
  "extends_warnings p s (add_error p' t s') = extends_warnings p s s'"
  "extends_warnings p s (check_required_fields p' d fs s') = extends_warnings p s s'"
  by (simp_all add: extends_warnings_def)

lemma typed_mem [simp]:
  "''missing_required_field'' \<in> typed_error_types"
  "''invalid_implementation'' \<in> typed_error_types"
  "''invalid_schema'' \<in> typed_error_types"
  "''invalid_tags'' \<in> typed_error_types"
  "''invalid_fields'' \<in> typed_error_types"
  "''invalid_field'' \<in> typed_error_types"
  "''missing_field_name'' \<in> typed_error_types"
  "''duplicate_field'' \<in> typed_error_types"
  "''missing_picklist_values'' \<in> typed_error_types"
  "''invalid_components'' \<in> typed_error_types"
  "''invalid_component'' \<in> typed_error_types"
  "''invalid_component_type'' \<in> typed_error_types"
  "''invalid_trigger_type'' \<in> typed_error_types"
  "''missing_action_ref'' \<in> typed_error_types"
  by (simp_all add: typed_error_types_def)

lemma ext_if_add:
  "t \<in> T \<Longrightarrow> extends_errors p T s s' \<Longrightarrow>
   extends_errors p T s (if c then add_error p t s' else s')"
  by (auto simp: extends_errors_def)

lemma ext_ifI:
  "(c \<Longrightarrow> extends_errors p T s a) \<Longrightarrow> (\<not> c \<Longrightarrow> extends_errors p T s b) \<Longrightarrow>
   extends_errors p T s (if c then a else b)"
  by simp

lemma extw_if_add:
  "extends_warnings p s s' \<Longrightarrow> extends_warnings p s (if c then add_warning p t s' else s')"
  by (auto simp: extends_warnings_def)

lemma extw_ifI:
  "(c \<Longrightarrow> extends_warnings p s a) \<Longrightarrow> (\<not> c \<Longrightarrow> extends_warnings p s b) \<Longrightarrow>
   extends_warnings p s (if c then a else b)"
  by simp

lemma ext_updI:
  "extends_errors p T s s' \<Longrightarrow> extends_errors p T s (s'\<lparr>action_names := A\<rparr>)"
  "extends_errors p T s s' \<Longrightarrow> extends_errors p T s (s'\<lparr>integration_names := A\<rparr>)"
  "extends_errors p T s s' \<Longrightarrow> extends_errors p T s (s'\<lparr>schema_objects := A\<rparr>)"
  "extends_errors p T s s' \<Longrightarrow> extends_errors p T s (s'\<lparr>schema_fields := F\<rparr>)"
  "extends_errors p T s s' \<Longrightarrow> extends_errors p T s (s'\<lparr>all_files := L\<rparr>)"
  "extends_errors p T s s' \<Longrightarrow> extends_errors p T s (add_warning p' t s')"
  by simp_all

lemma extw_updI:
  "extends_warnings p s s' \<Longrightarrow> extends_warnings p s (s'\<lparr>action_names := A\<rparr>)"
  "extends_warnings p s s' \<Longrightarrow> extends_warnings p s (s'\<lparr>integration_names := A\<rparr>)"
  "extends_warnings p s s' \<Longrightarrow> extends_warnings p s (s'\<lparr>schema_objects := A\<rparr>)"
  "extends_warnings p s s' \<Longrightarrow> extends_warnings p s (s'\<lparr>schema_fields := F\<rparr>)"
  "extends_warnings p s s' \<Longrightarrow> extends_warnings p s (s'\<lparr>all_files := L\<rparr>)"
  "extends_warnings p s s' \<Longrightarrow> extends_warnings p s (add_error p' t s')"
  "extends_warnings p s s' \<Longrightarrow> extends_warnings p s (check_required_fields p' d fs s')"
  by simp_all

lemmas ext_intros = ext_refl ext_if_add ext_add_error ext_crf ext_ifI typed_mem ext_updI
  extw_refl extw_if_add extw_add_warning extw_ifI extw_updI

lemma state_of_if:
  "state_of (if c then a else b) = (if c then state_of a else state_of b)"
  by simp

lemma action_ext:
  "extends_errors p typed_error_types s (state_of (validate_action p data s))"
  unfolding validate_action_def Let_def state_of_if state_of_simps
  by (intro ext_intros)

lemma action_frame:
  "warnings (state_of (validate_action p data s)) = warnings s"
  "all_files (state_of (validate_action p data s)) = all_files s"
  "schema_objects (state_of (validate_action p data s)) = schema_objects s"
  "schema_fields (state_of (validate_action p data s)) = schema_fields s"
  "integration_names (state_of (validate_action p data s)) = integration_names s"
  by (simp_all add: validate_action_def Let_def)

lemma schema_loop_frame:
  "all_files (state_of (schema_fields_loop p on fl fn s)) = all_files s"
  "action_names (state_of (schema_fields_loop p on fl fn s)) = action_names s"
  "integration_names (state_of (schema_fields_loop p on fl fn s)) = integration_names s"
  "schema_objects (state_of (schema_fields_loop p on fl fn s)) = schema_objects s"
  by (induction fl arbitrary: fn s; simp add: Let_def split: yval.split option.split)+

lemma schema_loop_ext:
  "extends_errors p typed_error_types s0 s \<Longrightarrow>
   extends_errors p typed_error_types s0 (state_of (schema_fields_loop p on fl fn s))"
proof (induction fl arbitrary: fn s)
  case Nil
  then show ?case by simp
next
  case (Cons field rest)
  note ih = Cons.IH and pre = Cons.prems
  show ?case
    by (simp add: Let_def split: yval.split option.split) (intro conjI impI allI ih ext_intros pre)
qed

lemma schema_loop_extw:
  "extends_warnings p s0 s \<Longrightarrow>
   extends_warnings p s0 (state_of (schema_fields_loop p on fl fn s))"
proof (induction fl arbitrary: fn s)
  case Nil
  then show ?case by simp
next
  case (Cons field rest)
  note ih = Cons.IH and pre = Cons.prems
  show ?case
    by (simp add: Let_def split: yval.split option.split) (intro conjI impI allI ih ext_intros pre)
qed

lemma action_names_action:
  "action_names (state_of (validate_action p data s)) =
     (if truthy (dget data ''name'') \<and> hashable (dget data ''name'')
      then insert (hkey (dget data ''name'')) (action_names s) else action_names s)"
  by (simp add: validate_action_def Let_def)

lemma schema_ext:
  "extends_errors p typed_error_types s (state_of (validate_schema p data s))"
  unfolding validate_schema_def Let_def
  by (auto split: yval.split intro!: schema_loop_ext ext_intros)

lemma schema_extw:
  "extends_warnings p s (state_of (validate_schema p data s))"
  unfolding validate_schema_def Let_def
  by (auto split: yval.split intro!: schema_loop_extw ext_intros)

lemma schema_frame:
  "all_files (state_of (validate_schema p data s)) = all_files s"
  "action_names (state_of (validate_schema p data s)) = action_names s"
  "integration_names (state_of (validate_schema p data s)) = integration_names s"
  by (simp_all add: validate_schema_def Let_def schema_loop_frame split: yval.split)

lemma layout_loop_frame:
  "warnings (layout_components_loop p cs s) = warnings s"
  "all_files (layout_components_loop p cs s) = all_files s"
  "action_names (layout_components_loop p cs s) = action_names s"
  "integration_names (layout_components_loop p cs s) = integration_names s"
  "schema_objects (layout_components_loop p cs s) = schema_objects s"
  "schema_fields (layout_components_loop p cs s) = schema_fields s"
  by (induction cs arbitrary: s; simp add: Let_def split: yval.split)+

lemma layout_loop_ext:
  "extends_errors p typed_error_types s0 s \<Longrightarrow>
   extends_errors p typed_error_types s0 (layout_components_loop p cs s)"
proof (induction cs arbitrary: s)
  case Nil
  then show ?case by simp
next
  case (Cons c cs)
  note ih = Cons.IH and pre = Cons.prems
  show ?case
    by simp (intro ih, simp split: yval.split add: Let_def, intro conjI impI allI ext_intros pre)
qed

lemma layout_ext:
  "extends_errors p typed_error_types s (state_of (validate_layout p data s))"
  unfolding validate_layout_def Let_def
  by (auto split: yval.split intro!: layout_loop_ext ext_intros)

lemma layout_frame:
  "warnings (state_of (validate_layout p data s)) = warnings s"
  "all_files (state_of (validate_layout p data s)) = all_files s"
  "action_names (state_of (validate_layout p data s)) = action_names s"
  "integration_names (state_of (validate_layout p data s)) = integration_names s"
  "schema_objects (state_of (validate_layout p data s)) = schema_objects s"
  "schema_fields (state_of (validate_layout p data s)) = schema_fields s"
  by (simp_all add: validate_layout_def Let_def layout_loop_frame split: yval.split)

lemma automation_ext:
  "extends_errors p typed_error_types s (state_of (validate_automation p data s))"
  unfolding validate_automation_def Let_def
  by (auto split: yval.split intro!: ext_intros)

lemma automation_frame:
  "warnings (state_of (validate_automation p data s)) = warnings s"
  "all_files (state_of (validate_automation p data s)) = all_files s"
  "action_names (state_of (validate_automation p data s)) = action_names s"
  "integration_names (state_of (validate_automation p data s)) = integration_names s"
  "schema_objects (state_of (validate_automation p data s)) = schema_objects s"
  "schema_fields (state_of (validate_automation p data s)) = schema_fields s"
  by (simp_all add: validate_automation_def Let_def split: yval.split)

lemma integration_ext:
  "extends_errors p typed_error_types s (state_of (validate_integration p data s))"
  unfolding validate_integration_def Let_def
  by (auto intro!: ext_intros)

lemma integration_frame:
  "warnings (state_of (validate_integration p data s)) = warnings s"
  "all_files (state_of (validate_integration p data s)) = all_files s"
  "action_names (state_of (validate_integration p data s)) = action_names s"
  "schema_objects (state_of (validate_integration p data s)) = schema_objects s"
  "schema_fields (state_of (validate_integration p data s)) = schema_fields s"
  by (simp_all add: validate_integration_def Let_def)

lemma form_ext:
  "extends_errors p typed_error_types s (state_of (validate_form p data s))"
  unfolding validate_form_def Let_def
  by (auto intro!: ext_intros)

lemma form_frame:
  "warnings (state_of (validate_form p data s)) = warnings s"
  "all_files (state_of (validate_form p data s)) = all_files s"
  "action_names (state_of (validate_form p data s)) = action_names s"
  "integration_names (state_of (validate_form p data s)) = integration_names s"
  "schema_objects (state_of (validate_form p data s)) = schema_objects s"
  "schema_fields (state_of (validate_form p data s)) = schema_fields s"
  by (simp_all add: validate_form_def Let_def)

lemma typed_ext:
  "extends_errors p (insert ''missing_type'' typed_error_types) s (state_of (validate_typed p data s))"
  unfolding validate_typed_def Let_def
  by (auto intro!: ext_intros ext_mono[OF action_ext] ext_mono[OF schema_ext] ext_mono[OF layout_ext]
      ext_mono[OF automation_ext] ext_mono[OF integration_ext] ext_mono[OF form_ext])

lemma typed_ext_truthy:
  "truthy (dget data ''type'') \<Longrightarrow>
   extends_errors p typed_error_types s (state_of (validate_typed p data s))"
  unfolding validate_typed_def Let_def
  by (auto intro!: ext_intros action_ext schema_ext layout_ext automation_ext integration_ext form_ext)

lemma typed_extw:
  "extends_warnings p s (state_of (validate_typed p data s))"
  unfolding validate_typed_def Let_def
  by (auto intro!: ext_intros schema_extw
      extw_same[OF action_frame(1)] extw_same[OF layout_frame(1)] extw_same[OF automation_frame(1)]
      extw_same[OF integration_frame(1)] extw_same[OF form_frame(1)])

lemma typed_all_files:
  "all_files (state_of (validate_typed p data s)) = all_files s"
  by (simp add: validate_typed_def Let_def action_frame schema_frame layout_frame
      automation_frame integration_frame form_frame)

lemma typed_action_names:
  "action_names (state_of (validate_typed p data s)) =
     (if dget data ''type'' = YStr ''action'' \<and> truthy (dget data ''name'') \<and> hashable (dget data ''name'')
      then insert (hkey (dget data ''name'')) (action_names s) else action_names s)"
  by (simp add: validate_typed_def Let_def action_names_action schema_frame layout_frame
      automation_frame integration_frame form_frame)

lemma file_state:
  "validate_file p (Parsed (YMap data)) s =
     (case validate_typed p data (s\<lparr>all_files := AList.update p data (all_files s)\<rparr>) of
        Inl es \<Rightarrow> add_error p ''file_error'' (snd es) | Inr s' \<Rightarrow> s')"
  by (simp add: validate_file_def split: sum.split prod.split)

lemma file_ext:
  "extends_errors p phase1_error_types s (validate_file p src s)"
proof (cases src)
  case (Parsed v)
  show ?thesis
  proof (cases v)
    case (YMap data)
    have "extends_errors p phase1_error_types (s\<lparr>all_files := AList.update p data (all_files s)\<rparr>)
           (state_of (validate_typed p data (s\<lparr>all_files := AList.update p data (all_files s)\<rparr>)))"
      by (rule ext_mono[OF typed_ext]) (auto simp: phase1_error_types_def)
    then show ?thesis
      unfolding Parsed YMap file_state
      by (auto split: sum.split simp: extends_errors_def phase1_error_types_def)
  qed (auto simp: Parsed validate_file_def phase1_error_types_def intro!: ext_add_error)
qed (auto simp: validate_file_def phase1_error_types_def intro!: ext_add_error)

lemma file_extw:
  "extends_warnings p s (validate_file p src s)"
proof (cases src)
  case (Parsed v)
  show ?thesis
  proof (cases v)
    case (YMap data)
    have "extends_warnings p (s\<lparr>all_files := AList.update p data (all_files s)\<rparr>)
           (state_of (validate_typed p data (s\<lparr>all_files := AList.update p data (all_files s)\<rparr>)))"
      by (rule typed_extw)
    then show ?thesis
      unfolding Parsed YMap file_state
      by (auto split: sum.split simp: extends_warnings_def)
  qed (auto simp: Parsed validate_file_def)
qed (auto simp: validate_file_def)

lemma file_all_files:
  "all_files (validate_file p src s) =
     (case src of Parsed (YMap data) \<Rightarrow> AList.update p data (all_files s) | _ \<Rightarrow> all_files s)"
proof (cases src)
  case (Parsed v)
  show ?thesis
  proof (cases v)
    case (YMap data)
    show ?thesis
      using typed_all_files[of p data "s\<lparr>all_files := AList.update p data (all_files s)\<rparr>"]
      unfolding Parsed YMap file_state
      by (auto split: sum.split)
  qed (auto simp: Parsed validate_file_def)
qed (auto simp: validate_file_def)

lemma file_action_names:
  "action_names (validate_file p src s) =
     (case src of
        Parsed (YMap data) \<Rightarrow>
          (if dget data ''type'' = YStr ''action'' \<and> truthy (dget data ''name'')
              \<and> hashable (dget data ''name'')
           then insert (hkey (dget data ''name'')) (action_names s) else action_names s)
      | _ \<Rightarrow> action_names s)"
proof (cases src)
  case (Parsed v)
  show ?thesis
  proof (cases v)
    case (YMap data)
    show ?thesis
      using typed_action_names[of p data "s\<lparr>all_files := AList.update p data (all_files s)\<rparr>"]
      unfolding Parsed YMap file_state
      by (auto split: sum.split)
  qed (auto simp: Parsed validate_file_def)
qed (auto simp: validate_file_def)

lemma rf_refl: "refs_frame p s s"
  by (simp add: refs_frame_def)

lemma rf_trans: "refs_frame p s s' \<Longrightarrow> refs_frame p s' s'' \<Longrightarrow> refs_frame p s s''"
  by (auto simp: refs_frame_def intro: ext_trans extw_trans)

lemma phase2_mem:
  "''missing_action_reference'' \<in> phase2_error_types"
  "''missing_schema_reference'' \<in> phase2_error_types"
  "''missing_field_reference'' \<in> phase2_error_types"
  "''missing_integration_reference'' \<in> phase2_error_types"
  by (simp_all add: phase2_error_types_def)

lemma rf_add_error:
  "t \<in> phase2_error_types \<Longrightarrow> refs_frame p s s' \<Longrightarrow> refs_frame p s (add_error p t s')"
  by (auto simp: refs_frame_def intro: ext_add_error)

lemma rf_add_warning:
  "refs_frame p s s' \<Longrightarrow> refs_frame p s (add_warning p t s')"
  by (auto simp: refs_frame_def intro: extw_add_warning)

lemma rf_ifI:
  "(c \<Longrightarrow> refs_frame p s a) \<Longrightarrow> (\<not> c \<Longrightarrow> refs_frame p s b) \<Longrightarrow>
   refs_frame p s (if c then a else b)"
  by simp

lemmas rf_intros = rf_refl rf_add_error rf_add_warning rf_ifI phase2_mem

lemma automation_refs_frame:
  "refs_frame p s0 s \<Longrightarrow> refs_frame p s0 (state_of (validate_automation_references p data s))"
  unfolding validate_automation_references_def Let_def
  by (auto split: yval.split intro!: rf_intros)

lemma check_qualified_frame:
  "refs_frame p s0 s \<Longrightarrow> refs_frame p s0 (check_qualified p q s)"
  unfolding check_qualified_def
  by (auto split: option.split intro!: rf_intros)

lemma field_reference_frame:
  "refs_frame p s0 s \<Longrightarrow> refs_frame p s0 (state_of (validate_field_reference p on fn s))"
  unfolding validate_field_reference_def
  by (auto split: option.split yval.split bool.split intro!: rf_intros check_qualified_frame)

lemma rf_bind:
  "refs_frame p s0 (state_of r) \<Longrightarrow>
   (\<And>s'. refs_frame p s0 s' \<Longrightarrow> refs_frame p s0 (state_of (f s'))) \<Longrightarrow>
   refs_frame p s0 (state_of (case r of Inl e \<Rightarrow> Inl e | Inr s' \<Rightarrow> f s'))"
  by (cases r) (auto simp: state_of_def)

lemma layout_fields_loop_frame:
  "refs_frame p s0 s \<Longrightarrow> refs_frame p s0 (state_of (layout_fields_loop p ln fl s))"
proof (induction fl arbitrary: s)
  case Nil
  then show ?case by simp
next
  case (Cons f fl)
  show ?case
    unfolding layout_fields_loop.simps
    by (rule rf_bind)
       (auto split: yval.split intro!: field_reference_frame Cons.prems Cons.IH)
qed

lemma layout_refs_loop_frame:
  "refs_frame p s0 s \<Longrightarrow> refs_frame p s0 (state_of (layout_refs_loop p ln cs s))"
proof (induction cs arbitrary: s)
  case Nil
  then show ?case by simp
next
  case (Cons c cs)
  show ?case
    unfolding layout_refs_loop.simps
    by (rule rf_bind)
       (auto split: yval.split option.split intro!: layout_fields_loop_frame Cons.prems Cons.IH)
qed

lemma layout_references_frame:
  "refs_frame p s0 s \<Longrightarrow> refs_frame p s0 (state_of (validate_layout_references p data s))"
  unfolding validate_layout_references_def Let_def
  by (auto split: option.split intro!: rf_intros layout_refs_loop_frame)

lemma form_field_step_frame:
  "refs_frame p s0 s \<Longrightarrow> refs_frame p s0 (state_of (form_field_step p f s))"
  unfolding form_field_step_def Let_def
  by (auto split: option.split yval.split bool.split intro!: rf_intros check_qualified_frame)

lemma form_fields_loop_frame:
  "refs_frame p s0 s \<Longrightarrow> refs_frame p s0 (state_of (form_fields_loop p fl s))"
proof (induction fl arbitrary: s)
  case Nil
  then show ?case by simp
next
  case (Cons f fl)
  show ?case
    unfolding form_fields_loop.simps
    by (rule rf_bind) (auto intro!: form_field_step_frame Cons.prems Cons.IH)
qed

lemma form_references_frame:
  "refs_frame p s0 s \<Longrightarrow> refs_frame p s0 (state_of (validate_form_references p data s))"
  unfolding validate_form_references_def Let_def
  by (auto split: option.split intro!: rf_intros form_fields_loop_frame)

lemma integration_references_frame:
  "refs_frame p s0 s \<Longrightarrow> refs_frame p s0 (state_of (validate_integration_references p data s))"
  unfolding validate_integration_references_def Let_def
  by (auto split: yval.split intro!: rf_intros)

lemma references_frame:
  "refs_frame p s (state_of (validate_references p data s))"
  unfolding validate_references_def Let_def
  by (auto intro!: automation_refs_frame layout_references_frame form_references_frame
      integration_references_frame rf_refl)

lemma syntax_files:
  "validate_syntax t s =
     validate_files (files_of t)
       (case t of Unmatched p \<Rightarrow> add_error p ''file_not_found'' s | _ \<Rightarrow> s)"
  by (cases t) simp_all

lemma loaded_fst: "fst ` set (loaded fs) \<subseteq> fst ` set fs"
  by (induction fs) (auto split: source.splits yval.splits)

lemma loaded_mem: "(p, data) \<in> set (loaded fs) \<longleftrightarrow> (p, Parsed (YMap data)) \<in> set fs"
  by (induction fs) (auto split: source.splits yval.splits)

lemma loaded_distinct: "distinct (map fst fs) \<Longrightarrow> distinct (map fst (loaded fs))"
proof (induction fs)
  case (Cons f fs)
  then show ?case using loaded_fst[of fs] by (auto split: source.splits yval.splits)
qed simp

lemma update_fresh: "k \<notin> fst ` set xs \<Longrightarrow> AList.update k v xs = xs @ [(k, v)]"
  by (induction xs) auto

lemma files_count_other:
  "p \<notin> fst ` set fs \<Longrightarrow> count_errors t p (validate_files fs s) = count_errors t p s"
proof (induction fs arbitrary: s)
  case (Cons f fs)
  have "count_errors t p (validate_file (fst f) (snd f) s) = count_errors t p s"
    using Cons.prems by (intro count_ext_path[OF file_ext]) auto
  then show ?case using Cons by simp
qed simp

lemma files_count_type:
  "t \<notin> phase1_error_types \<Longrightarrow> count_errors t p (validate_files fs s) = count_errors t p s"
proof (induction fs arbitrary: s)
  case (Cons f fs)
  have "count_errors t p (validate_file (fst f) (snd f) s) = count_errors t p s"
    using Cons.prems by (intro count_ext_type[OF file_ext])
  then show ?case using Cons by simp
qed simp

lemma file_all_files_fresh:
  "fst f \<notin> fst ` set (all_files s) \<Longrightarrow>
   all_files (validate_file (fst f) (snd f) s) = all_files s @ loaded [f]"
proof (cases "snd f")
  case (Parsed v)
  assume "fst f \<notin> fst ` set (all_files s)"
  then show ?thesis unfolding Parsed file_all_files
    by (cases v) (simp_all add: Parsed update_fresh)
qed (simp_all add: file_all_files)

lemma loaded_single_fst: "fst ` set (loaded [f]) \<subseteq> {fst f}"
  using loaded_fst[of "[f]"] by simp

lemma loaded_single_keys: "map fst (loaded [f]) = [] \<or> map fst (loaded [f]) = [fst f]"
  by (cases "snd f"; simp split: yval.split)

lemma files_all_files_gen:
  "distinct (map fst (all_files s) @ map fst fs) \<Longrightarrow>
   all_files (validate_files fs s) = all_files s @ loaded fs"
proof (induction fs arbitrary: s)
  case Nil
  then show ?case by simp
next
  case (Cons f fs)
  let ?s = "validate_file (fst f) (snd f) s"
  have fresh: "fst f \<notin> fst ` set (all_files s)"
    using Cons.prems by (simp add: image_iff) 
  have af: "all_files ?s = all_files s @ loaded [f]"
    by (rule file_all_files_fresh[OF fresh])
  have d: "distinct (map fst (all_files ?s) @ map fst fs)"
    using Cons.prems loaded_single_keys[of f] unfolding af
    by (elim disjE) simp_all
  have "all_files (validate_files fs ?s) = all_files ?s @ loaded fs"
    by (rule Cons.IH[OF d])
  also have "all_files ?s @ loaded fs = all_files s @ loaded (f # fs)"
    unfolding af by simp
  finally show ?case by simp
qed

lemma files_all_files:
  "distinct (map fst fs) \<Longrightarrow> all_files s = [] \<Longrightarrow>
   all_files (validate_files fs s) = loaded fs"
  using files_all_files_gen[of s fs] by simp

lemma hkey_eq_truthy:
  "hkey n = hkey r \<Longrightarrow> truthy r \<Longrightarrow> hashable r \<Longrightarrow> truthy n \<and> hashable n"
  by (cases n; cases r) (auto split: if_splits)

lemma file_registers:
  assumes "truthy r" "hashable r"
  shows "hkey r \<in> action_names (validate_file p src s) \<longleftrightarrow>
         hkey r \<in> action_names s \<or> declares_action r src"
proof (cases src)
  case (Parsed v)
  show ?thesis
  proof (cases v)
    case (YMap d)
    have eq: "hkey (dget d ''name'') = hkey r \<Longrightarrow>
              truthy (dget d ''name'') \<and> hashable (dget d ''name'')"
      by (rule hkey_eq_truthy[OF _ assms])
    show ?thesis
      unfolding Parsed YMap file_action_names declares_action.simps source.case yval.case
      using eq by (cases "dget d ''type'' = YStr ''action''") auto
  qed (simp_all add: Parsed file_action_names)
qed (simp_all add: file_action_names)

lemma files_registers:
  assumes "truthy r" "hashable r"
  shows "hkey r \<in> action_names (validate_files fs s) \<longleftrightarrow>
         hkey r \<in> action_names s \<or> (\<exists>f \<in> set fs. declares_action r (snd f))"
proof (induction fs arbitrary: s)
  case Nil
  show ?case by simp
next
  case (Cons f fs)
  show ?case
    unfolding validate_files.simps Cons.IH file_registers[OF assms]
    by auto
qed

lemma count_crf:
  "t \<noteq> ''missing_required_field'' \<Longrightarrow>
   count_errors t q (check_required_fields p data fs s) = count_errors t q s"
  by (simp add: count_errors_def crf_errors filter_empty_conv)

lemma count_upd [simp]:
  "count_errors t q (s\<lparr>action_names := A\<rparr>) = count_errors t q s"
  "count_errors t q (s\<lparr>all_files := L\<rparr>) = count_errors t q s"
  by (simp_all add: count_errors_def)

lemma map_of_update_same: "map_of (AList.update k v xs) k = Some v"
  by (simp add: update_conv')

lemma action_count_tags:
  "\<not> (truthy (dget data ''name'') \<and> \<not> hashable (dget data ''name'')) \<Longrightarrow>
   \<exists>s'. validate_action p data s = Inr s' \<and>
     count_errors ''invalid_tags'' p s' = count_errors ''invalid_tags'' p s
       + (if truthy (dget data ''tags'') \<and> \<not> is_list (dget data ''tags'') then 1 else 0)"
proof -
  assume h: "\<not> (truthy (dget data ''name'') \<and> \<not> hashable (dget data ''name''))"
  have tg: "dget_default data ''tags'' (YList []) = dget data ''tags''
            \<or> (\<not> truthy (dget_default data ''tags'' (YList [])) \<and> \<not> truthy (dget data ''tags''))"
    by (simp add: dget_def dget_default_def split: option.split)
  show ?thesis
    using h tg unfolding validate_action_def Let_def
    by (auto simp: count_crf)
qed

lemma split_dot_append [simp]:
  "CHR ''.'' \<notin> set obj \<Longrightarrow> split_dot (obj @ CHR ''.'' # fld) = (obj, fld)"
  by (induction obj) (auto simp: split_dot_def)

(*CLAIMS*)

section \<open>The orchestrator's modes and verdict\<close>

text \<open>
  C1. In cross-file-only mode the syntax stage should still run silently, so that the
  cross-reference resolver reports every unresolved reference a full run reports. On the
  project \<open>ghost_project\<close> the full run records one \<open>missing_action_reference\<close> error, while
  the cross-file-only run loads no document, leaves the validator as it was created and
  returns the verdict true.
\<close>

theorem cross_file_only_loads_nothing:
  "validate_all (WholeProject ghost_project) False True init = Inr (True, init)
   \<and> map error_type (run_errors (validate_all (WholeProject ghost_project) False False init))
       = [''missing_action_reference'']"
proof
  show "validate_all (WholeProject ghost_project) False True init = Inr (True, init)"
    by (simp add: validate_all_def validate_cross_file_references_def init_def)
next
  show "map error_type (run_errors (validate_all (WholeProject ghost_project) False False init))
       = [''missing_action_reference'']"
    by code_simp
qed

text \<open>
  C2. The verdict is true and the exit status 0 exactly when no error was recorded. On
  \<open>crash_project\<close> the cross-file stage raises on the empty \<open>defaults\<close>: no verdict is
  returned and the exit status is 1, although no error was recorded.
\<close>

theorem crash_exits_nonzero_without_errors:
  "isl (validate_all (WholeProject crash_project) False False init)
   \<and> run_errors (validate_all (WholeProject crash_project) False False init) = []
   \<and> main (WholeProject crash_project) False False = 1"
  by code_simp

section \<open>The loader and the per-type validators\<close>

text \<open>
  C7 (amended). For a parsed top-level mapping the loader records exactly one more
  \<open>missing_type\<close> error when the value of \<open>type\<close> is absent or falsy (null, empty
  string, 0, false, empty sequence or mapping) and none otherwise. The document is stored
  in the project document set in either case, and when \<open>type\<close> is falsy nothing but
  that error and the stored document changes in the validator.
\<close>

theorem missing_type_iff_falsy:
  "count_errors ''missing_type'' p (validate_file p (Parsed (YMap data)) s)
     = count_errors ''missing_type'' p s + (if truthy (dget data ''type'') then 0 else 1)
   \<and> map_of (all_files (validate_file p (Parsed (YMap data)) s)) p = Some data
   \<and> (\<not> truthy (dget data ''type'') \<longrightarrow>
        validate_file p (Parsed (YMap data)) s
          = add_error p ''missing_type'' (s\<lparr>all_files := AList.update p data (all_files s)\<rparr>))"
proof (intro conjI impI)
  let ?s0 = "s\<lparr>all_files := AList.update p data (all_files s)\<rparr>"
  show "map_of (all_files (validate_file p (Parsed (YMap data)) s)) p = Some data"
    by (simp add: file_all_files map_of_update_same)
  show "validate_file p (Parsed (YMap data)) s = add_error p ''missing_type'' ?s0"
    if "\<not> truthy (dget data ''type'')"
    using that by (simp add: file_state validate_typed_def)
  show "count_errors ''missing_type'' p (validate_file p (Parsed (YMap data)) s)
     = count_errors ''missing_type'' p s + (if truthy (dget data ''type'') then 0 else 1)"
  proof (cases "truthy (dget data ''type'')")
    case True
    have nt: "''missing_type'' \<notin> typed_error_types" by (simp add: typed_error_types_def)
    have "count_errors ''missing_type'' p (state_of (validate_typed p data ?s0))
            = count_errors ''missing_type'' p ?s0"
      by (rule count_ext_type[OF typed_ext_truthy[OF True] nt])
    then show ?thesis using True
      by (cases "validate_typed p data ?s0") (auto simp: file_state)
  next
    case False
    then show ?thesis by (simp add: file_state validate_typed_def)
  qed
qed

theorem missing_type_iff_falsy_witness:
  "\<not> truthy (dget [(''name'', YStr ''orphan'')] ''type'')
   \<and> validate_file ''orphan.ps'' (Parsed (YMap [(''name'', YStr ''orphan'')])) init
       = add_error ''orphan.ps'' ''missing_type''
           (init\<lparr>all_files := [(''orphan.ps'', [(''name'', YStr ''orphan'')])]\<rparr>)"
  using missing_type_iff_falsy[of "''orphan.ps''" "[(''name'', YStr ''orphan'')]" init]
  by (simp add: dget_def dget_default_def init_def)

text \<open>
  C7 as stated fails: a mapping that has the \<open>type\<close> key with an empty (null) value
  does not lack the key, yet \<open>missing_type\<close> is recorded.
\<close>

theorem missing_type_counterexample:
  "has_key [(''type'', YNull), (''name'', YStr ''draft'')] ''type''
   \<and> map error_type (errors (validate_file ''draft.ps''
         (Parsed (YMap [(''type'', YNull), (''name'', YStr ''draft'')])) init))
       = [''missing_type'']"
  by code_simp

text \<open>
  C8 (amended). For an action document whose \<open>name\<close> is falsy or hashable, validating
  the file records exactly one more \<open>invalid_tags\<close> error when the value of \<open>tags\<close> is
  truthy and not a sequence, and none when \<open>tags\<close> is absent, falsy or a sequence.
\<close>

theorem invalid_tags_when_truthy:
  assumes "dget data ''type'' = YStr ''action''"
    and "\<not> (truthy (dget data ''name'') \<and> \<not> hashable (dget data ''name''))"
  shows "count_errors ''invalid_tags'' p (validate_file p (Parsed (YMap data)) s)
           = count_errors ''invalid_tags'' p s
             + (if truthy (dget data ''tags'') \<and> \<not> is_list (dget data ''tags'') then 1 else 0)"
proof -
  let ?s0 = "s\<lparr>all_files := AList.update p data (all_files s)\<rparr>"
  obtain s' where s': "validate_action p data ?s0 = Inr s'"
    "count_errors ''invalid_tags'' p s' = count_errors ''invalid_tags'' p ?s0
       + (if truthy (dget data ''tags'') \<and> \<not> is_list (dget data ''tags'') then 1 else 0)"
    using action_count_tags[OF assms(2), of p ?s0] by blast
  have "validate_typed p data ?s0 = Inr s'"
    using assms(1) s'(1) by (simp add: validate_typed_def)
  then show ?thesis using s'(2) by (simp add: file_state)
qed

theorem invalid_tags_when_truthy_witness:
  "count_errors ''invalid_tags'' ''a.ps''
     (validate_file ''a.ps'' (Parsed (YMap [(''type'', YStr ''action''), (''name'', YStr ''a''),
        (''description'', YStr ''d''), (''implementation'', YStr ''python''),
        (''tags'', YStr ''urgent'')])) init) = 1"
  using invalid_tags_when_truthy[of "[(''type'', YStr ''action''), (''name'', YStr ''a''),
        (''description'', YStr ''d''), (''implementation'', YStr ''python''),
        (''tags'', YStr ''urgent'')]" "''a.ps''" init]
  by (simp add: dget_def dget_default_def count_errors_def init_def)

text \<open>
  C8 as stated fails: with \<open>tags: 0\<close> the key is present and its value is not a
  sequence, yet no diagnostic at all is recorded for the document.
\<close>

theorem invalid_tags_counterexample:
  "has_key [(''type'', YStr ''action''), (''name'', YStr ''a''), (''description'', YStr ''d''),
            (''implementation'', YStr ''python''), (''tags'', YInt 0)] ''tags''
   \<and> \<not> is_list (dget [(''type'', YStr ''action''), (''name'', YStr ''a''),
            (''description'', YStr ''d''), (''implementation'', YStr ''python''),
            (''tags'', YInt 0)] ''tags'')
   \<and> errors (validate_file ''a.ps'' (Parsed (YMap [(''type'', YStr ''action''),
            (''name'', YStr ''a''), (''description'', YStr ''d''),
            (''implementation'', YStr ''python''), (''tags'', YInt 0)])) init) = []"
  by code_simp

text \<open>
  C6. A qualified reference \<open>obj.fld\<close> (split at its first dot), coming from a layout
  component through \<open>_validate_field_reference\<close> or from a form field's \<open>maps_to\<close>:
  when \<open>obj\<close> has a field set in the Symbol Table and \<open>fld\<close> is not in it, exactly the
  error \<open>missing_field_reference\<close> is added; when \<open>fld\<close> is in the set, or \<open>obj\<close> has no
  field set, the validator state is unchanged.
\<close>

theorem qualified_reference_rule:
  assumes "CHR ''.'' \<notin> set obj" and "map_of f ''maps_to'' = Some (YStr (obj @ ''.'' @ fld))"
  shows "validate_field_reference p on (YStr (obj @ ''.'' @ fld)) s
           = Inr (case schema_fields s (YStr obj) of
                    None \<Rightarrow> s
                  | Some fset \<Rightarrow> if YStr fld \<notin> fset
                                  then add_error p ''missing_field_reference'' s else s)
         \<and> form_field_step p (YMap f) s
           = Inr (case schema_fields s (YStr obj) of
                    None \<Rightarrow> s
                  | Some fset \<Rightarrow> if YStr fld \<notin> fset
                                  then add_error p ''missing_field_reference'' s else s)"
  using assms
  by (simp add: validate_field_reference_def form_field_step_def has_key_def dget_def
      dget_default_def check_qualified_def split: option.split)

theorem qualified_reference_rule_witness:
  "validate_field_reference ''l.ps'' (YStr ''contact'') (YStr ''contact.phone'') contact_table
     = Inr (add_error ''l.ps'' ''missing_field_reference'' contact_table)
   \<and> form_field_step ''l.ps'' (YMap [(''maps_to'', YStr ''contact.phone'')]) contact_table
     = Inr (add_error ''l.ps'' ''missing_field_reference'' contact_table)
   \<and> validate_field_reference ''l.ps'' (YStr ''contact'') (YStr ''vendor.phone'') contact_table
     = Inr contact_table"
  using qualified_reference_rule[of "''contact''" "[(''maps_to'', YStr ''contact.phone'')]"
      "''phone''" "''l.ps''" "YStr ''contact''" contact_table]
    qualified_reference_rule[of "''vendor''" "[(''maps_to'', YStr ''vendor.phone'')]"
      "''phone''" "''l.ps''" "YStr ''contact''" contact_table]
  by (simp add: contact_table_def)

text \<open>
  C10. A form field whose \<open>maps_to\<close> is a string without a dot leaves the validator
  unchanged, whatever the Symbol Table holds, and the loop over the form's fields behaves
  as if the entry were not there.
\<close>

theorem undotted_maps_to_unchecked:
  assumes "map_of f ''maps_to'' = Some (YStr m)" and "CHR ''.'' \<notin> set m"
  shows "form_field_step p (YMap f) s = Inr s
         \<and> form_fields_loop p (xs @ YMap f # ys) s = form_fields_loop p (xs @ ys) s"
proof
  show step: "form_field_step p (YMap f) s = Inr s" for s
    using assms by (simp add: form_field_step_def has_key_def dget_def dget_default_def)
  show "form_fields_loop p (xs @ YMap f # ys) s = form_fields_loop p (xs @ ys) s"
  proof (induction xs arbitrary: s)
    case Nil
    show ?case by (simp add: step)
  next
    case (Cons x xs)
    show ?case by (simp add: Cons.IH split: sum.split)
  qed
qed

theorem undotted_maps_to_unchecked_witness:
  "form_field_step ''f.ps'' (YMap [(''name'', YStr ''phone''), (''maps_to'', YStr ''phone'')])
     contact_table = Inr contact_table
   \<and> YStr ''phone'' \<notin> the (schema_fields contact_table (YStr ''contact''))"
  using undotted_maps_to_unchecked[of "[(''name'', YStr ''phone''), (''maps_to'', YStr ''phone'')]"
      "''phone''" "''f.ps''" contact_table "[]" "[]"]
  by (simp add: contact_table_def)

end
